theory Spec2Isabelle
  imports Main "HOL-Library.Word"
begin

section \<open>The event records of \<open>generated_s2n_quic_bpf_events.h\<close>\<close>

text \<open>
  The header declares four C structs and nothing else: no function, no macro, no
  qualifier and no attribute on any struct or member. Every member has the type
  \<open>uint64_t\<close>, which the header takes from the system headers it includes: the
  exact-width unsigned integer of 64 bits, modelled as a 64-bit word.
\<close>

type_synonym uint64_t = "64 word"

subsection \<open>The structs as records\<close>

text \<open>
  Each struct is a record with the members of the struct, in the order of the
  declaration. Initialising a struct (\<open>struct RecoveryMetrics m = {a, b, ...}\<close>) is
  the record constructor and reading a member (\<open>m.path\<close>) is the selector. The
  header has no code that receives a record and writes to it.
\<close>

record RecoveryMetrics =
  path :: uint64_t
  min_rtt :: uint64_t
  smoothed_rtt :: uint64_t
  latest_rtt :: uint64_t
  rtt_variance :: uint64_t
  max_ack_delay :: uint64_t
  pto_count :: uint64_t
  congestion_window :: uint64_t
  bytes_in_flight :: uint64_t

record RxStreamProgress =
  bytes :: uint64_t

record TxStreamProgress =
  bytes :: uint64_t

record EndpointDatagramReceived =
  len :: uint64_t

subsection \<open>The declarations as data\<close>

text \<open>
  The member list of each struct, as the header writes it: the name of the member and
  its type, top to bottom. \<open>uint64_t\<close> is the only type the header uses.
\<close>

datatype ctype = Uint64_t

fun ctype_bits :: "ctype \<Rightarrow> nat" where
  "ctype_bits Uint64_t = 64"

fun ctype_signed :: "ctype \<Rightarrow> bool" where
  "ctype_signed Uint64_t = False"

type_synonym member = "string \<times> ctype"

definition RecoveryMetrics_decl :: "member list" where
  "RecoveryMetrics_decl =
    [(''path'', Uint64_t),
     (''min_rtt'', Uint64_t),
     (''smoothed_rtt'', Uint64_t),
     (''latest_rtt'', Uint64_t),
     (''rtt_variance'', Uint64_t),
     (''max_ack_delay'', Uint64_t),
     (''pto_count'', Uint64_t),
     (''congestion_window'', Uint64_t),
     (''bytes_in_flight'', Uint64_t)]"

definition RxStreamProgress_decl :: "member list" where
  "RxStreamProgress_decl = [(''bytes'', Uint64_t)]"

definition TxStreamProgress_decl :: "member list" where
  "TxStreamProgress_decl = [(''bytes'', Uint64_t)]"

definition EndpointDatagramReceived_decl :: "member list" where
  "EndpointDatagramReceived_decl = [(''len'', Uint64_t)]"

text \<open>
  Reading every member of a record, in the order of the declaration.
\<close>

definition RecoveryMetrics_read :: "RecoveryMetrics \<Rightarrow> uint64_t list" where
  "RecoveryMetrics_read m =
    [path m, min_rtt m, smoothed_rtt m, latest_rtt m, rtt_variance m,
     max_ack_delay m, pto_count m, congestion_window m, bytes_in_flight m]"

definition RxStreamProgress_read :: "RxStreamProgress \<Rightarrow> uint64_t list" where
  "RxStreamProgress_read m = [RxStreamProgress.bytes m]"

definition TxStreamProgress_read :: "TxStreamProgress \<Rightarrow> uint64_t list" where
  "TxStreamProgress_read m = [TxStreamProgress.bytes m]"

definition EndpointDatagramReceived_read :: "EndpointDatagramReceived \<Rightarrow> uint64_t list" where
  "EndpointDatagramReceived_read m = [len m]"

subsection \<open>The layout of a struct in memory\<close>

text \<open>
  The header leaves the layout to the C implementation, which places the members of a
  struct in the order of the declaration: a member starts at the first offset, at or
  after the end of the member before it, that is a multiple of the alignment of its
  type; the struct is aligned as its most aligned member; and the size of the struct
  is the end of its last member, rounded up to the alignment of the struct. A byte has
  8 bits, so a \<open>uint64_t\<close> takes 8 bytes. Its alignment differs between platforms (8
  on x86-64 and for BPF, 4 on 32-bit x86) and is a parameter \<open>al\<close> of the layout; on
  every platform the alignment of a type divides its size.
\<close>

definition size_of :: "ctype \<Rightarrow> nat" where
  "size_of t = ctype_bits t div 8"

definition round_up :: "nat \<Rightarrow> nat \<Rightarrow> nat" where
  "round_up a n = (if n mod a = 0 then n else n + (a - n mod a))"

fun offsets_from :: "(ctype \<Rightarrow> nat) \<Rightarrow> nat \<Rightarrow> ctype list \<Rightarrow> nat list" where
  "offsets_from al pos [] = []"
| "offsets_from al pos (t # ts) =
     round_up (al t) pos # offsets_from al (round_up (al t) pos + size_of t) ts"

fun end_from :: "(ctype \<Rightarrow> nat) \<Rightarrow> nat \<Rightarrow> ctype list \<Rightarrow> nat" where
  "end_from al pos [] = pos"
| "end_from al pos (t # ts) = end_from al (round_up (al t) pos + size_of t) ts"

fun align_of_members :: "(ctype \<Rightarrow> nat) \<Rightarrow> ctype list \<Rightarrow> nat" where
  "align_of_members al [] = 1"
| "align_of_members al (t # ts) = max (al t) (align_of_members al ts)"

definition offsetof_members :: "(ctype \<Rightarrow> nat) \<Rightarrow> member list \<Rightarrow> nat list" where
  "offsetof_members al d = offsets_from al 0 (map snd d)"

definition sizeof_struct :: "(ctype \<Rightarrow> nat) \<Rightarrow> member list \<Rightarrow> nat" where
  "sizeof_struct al d =
     round_up (align_of_members al (map snd d)) (end_from al 0 (map snd d))"

subsection \<open>Reads as operations on a constructed record\<close>

text \<open>
  The members of \<open>RecoveryMetrics\<close>, as designators of a read.
\<close>

datatype RecoveryMetrics_member =
  Path | Min_rtt | Smoothed_rtt | Latest_rtt | Rtt_variance | Max_ack_delay
  | Pto_count | Congestion_window | Bytes_in_flight

fun RecoveryMetrics_member_read :: "RecoveryMetrics_member \<Rightarrow> RecoveryMetrics \<Rightarrow> uint64_t" where
  "RecoveryMetrics_member_read Path m = path m"
| "RecoveryMetrics_member_read Min_rtt m = min_rtt m"
| "RecoveryMetrics_member_read Smoothed_rtt m = smoothed_rtt m"
| "RecoveryMetrics_member_read Latest_rtt m = latest_rtt m"
| "RecoveryMetrics_member_read Rtt_variance m = rtt_variance m"
| "RecoveryMetrics_member_read Max_ack_delay m = max_ack_delay m"
| "RecoveryMetrics_member_read Pto_count m = pto_count m"
| "RecoveryMetrics_member_read Congestion_window m = congestion_window m"
| "RecoveryMetrics_member_read Bytes_in_flight m = bytes_in_flight m"

text \<open>
  After construction the only operations on a record are member reads. A read is a
  step on the record as state: it returns the value of the member together with the
  record it leaves behind, and a sequence of reads threads the record through its
  steps, first read first.
\<close>

definition read_op :: "('r \<Rightarrow> uint64_t) \<Rightarrow> 'r \<Rightarrow> uint64_t \<times> 'r" where
  "read_op sel m = (sel m, m)"

primrec read_ops :: "('r \<Rightarrow> uint64_t) list \<Rightarrow> 'r \<Rightarrow> uint64_t list \<times> 'r" where
  "read_ops [] m = ([], m)"
| "read_ops (sel # sels) m =
     (case read_op sel m of
        (v, m') \<Rightarrow> (case read_ops sels m' of (vs, m'') \<Rightarrow> (v # vs, m'')))"

section \<open>Facts about the layout rule\<close>

lemma size_of_uint64 [simp]: "size_of t = 8"
  by (cases t) (simp add: size_of_def)

lemma round_up_multiple: "a dvd n \<Longrightarrow> round_up a n = n"
  by (simp add: round_up_def dvd_eq_mod_eq_0)

lemma offsets_from_uint64:
  "al Uint64_t dvd 8 \<Longrightarrow> 8 dvd pos \<Longrightarrow>
   offsets_from al pos ts = map (\<lambda>i. pos + 8 * i) [0..<length ts]"
proof (induction ts arbitrary: pos)
  case Nil
  then show ?case by simp
next
  case (Cons t ts)
  have t: "t = Uint64_t" by (cases t) simp
  from Cons.prems have here: "round_up (al Uint64_t) pos = pos"
    by (simp add: round_up_multiple dvd_trans)
  from Cons.prems have "8 dvd pos + 8" by simp
  with Cons have "offsets_from al (pos + 8) ts = map (\<lambda>i. pos + 8 + 8 * i) [0..<length ts]"
    by blast
  then show ?case
    by (simp add: here t upt_conv_Cons map_Suc_upt[symmetric] add.assoc del: upt_Suc)
qed

lemma end_from_uint64:
  "al Uint64_t dvd 8 \<Longrightarrow> 8 dvd pos \<Longrightarrow> end_from al pos ts = pos + 8 * length ts"
proof (induction ts arbitrary: pos)
  case Nil
  then show ?case by simp
next
  case (Cons t ts)
  have t: "t = Uint64_t" by (cases t) simp
  from Cons.prems have here: "round_up (al Uint64_t) pos = pos"
    by (simp add: round_up_multiple dvd_trans)
  from Cons.prems have "8 dvd pos + 8" by simp
  with Cons have "end_from al (pos + 8) ts = pos + 8 + 8 * length ts"
    by blast
  then show ?case by (simp add: here t)
qed

lemma align_of_members_uint64:
  "al Uint64_t dvd 8 \<Longrightarrow> align_of_members al ts dvd 8"
proof (induction ts)
  case Nil
  then show ?case by simp
next
  case (Cons t ts)
  have t: "t = Uint64_t" by (cases t) simp
  from Cons show ?case by (simp add: t max_def)
qed

lemma sizeof_struct_uint64:
  assumes "al Uint64_t dvd 8"
  shows "sizeof_struct al d = 8 * length d"
proof -
  have "end_from al 0 (map snd d) = 8 * length d"
    using assms end_from_uint64 [of al 0 "map snd d"] by simp
  moreover have "align_of_members al (map snd d) dvd 8 * length d"
    using assms align_of_members_uint64 [of al "map snd d"] by (simp add: dvd_mult2)
  ultimately show ?thesis
    by (simp add: sizeof_struct_def round_up_multiple)
qed

lemma offsetof_members_uint64:
  assumes "al Uint64_t dvd 8"
  shows "offsetof_members al d = map (\<lambda>i. 8 * (i - 1)) [1..<Suc (length d)]"
proof -
  have "offsets_from al 0 (map snd d) = map (\<lambda>i. 8 * i) [0..<length d]"
    using assms offsets_from_uint64 [of al 0 "map snd d"] by simp
  also have "\<dots> = map (\<lambda>i. 8 * (i - 1)) [1..<Suc (length d)]"
    by (simp add: map_Suc_upt[symmetric] del: upt_Suc)
  finally show ?thesis by (simp add: offsetof_members_def)
qed

lemma uint_word_of_int_u64:
  "0 \<le> v \<Longrightarrow> v \<le> 2 ^ 64 - 1 \<Longrightarrow> uint (word_of_int v :: uint64_t) = v"
  by (simp add: uint_word_of_int)

lemma read_ops_leave_record:
  "read_ops sels m = (map (\<lambda>sel. sel m) sels, m)"
  by (induction sels) (simp_all add: read_op_def)

section \<open>The shape of the records\<close>

text \<open>
  C1. The declaration of \<open>RecoveryMetrics\<close> lists nine members, named path, min_rtt,
  smoothed_rtt, latest_rtt, rtt_variance, max_ack_delay, pto_count, congestion_window
  and bytes_in_flight in this order, each of the unsigned 64-bit type. A record holds
  nothing else: it is the record built from its nine member reads, and each read is 64
  bits wide.
\<close>

theorem RecoveryMetrics_nine_members:
  "map fst RecoveryMetrics_decl =
     [''path'', ''min_rtt'', ''smoothed_rtt'', ''latest_rtt'', ''rtt_variance'',
      ''max_ack_delay'', ''pto_count'', ''congestion_window'', ''bytes_in_flight'']
   \<and> length RecoveryMetrics_decl = 9
   \<and> map snd RecoveryMetrics_decl = replicate 9 Uint64_t
   \<and> map ctype_bits (map snd RecoveryMetrics_decl) = replicate 9 64
   \<and> map ctype_signed (map snd RecoveryMetrics_decl) = replicate 9 False
   \<and> length (RecoveryMetrics_read m) = length RecoveryMetrics_decl
   \<and> map size (RecoveryMetrics_read m) = map ctype_bits (map snd RecoveryMetrics_decl)
   \<and> m = \<lparr>path = RecoveryMetrics_read m ! 0,
           min_rtt = RecoveryMetrics_read m ! 1,
           smoothed_rtt = RecoveryMetrics_read m ! 2,
           latest_rtt = RecoveryMetrics_read m ! 3,
           rtt_variance = RecoveryMetrics_read m ! 4,
           max_ack_delay = RecoveryMetrics_read m ! 5,
           pto_count = RecoveryMetrics_read m ! 6,
           congestion_window = RecoveryMetrics_read m ! 7,
           bytes_in_flight = RecoveryMetrics_read m ! 8\<rparr>"
  by (simp add: RecoveryMetrics_decl_def RecoveryMetrics_read_def word_size eval_nat_numeral)

text \<open>
  C5. The declarations of \<open>RxStreamProgress\<close> and of \<open>TxStreamProgress\<close> each list one
  member, named bytes, of the unsigned 64-bit type. A record of either kind holds
  nothing else: it is the record built from that one read, which is 64 bits wide.
\<close>

theorem StreamProgress_one_member:
  "map fst RxStreamProgress_decl = [''bytes'']
   \<and> map fst TxStreamProgress_decl = [''bytes'']
   \<and> length RxStreamProgress_decl = 1
   \<and> length TxStreamProgress_decl = 1
   \<and> map snd RxStreamProgress_decl = [Uint64_t]
   \<and> map snd TxStreamProgress_decl = [Uint64_t]
   \<and> ctype_bits Uint64_t = 64
   \<and> ctype_signed Uint64_t = False
   \<and> RxStreamProgress_read rx = [RxStreamProgress.bytes rx]
   \<and> TxStreamProgress_read tx = [TxStreamProgress.bytes tx]
   \<and> size (RxStreamProgress.bytes rx) = 64
   \<and> size (TxStreamProgress.bytes tx) = 64
   \<and> rx = \<lparr>RxStreamProgress.bytes = RxStreamProgress.bytes rx\<rparr>
   \<and> tx = \<lparr>TxStreamProgress.bytes = TxStreamProgress.bytes tx\<rparr>"
  by (simp add: RxStreamProgress_decl_def TxStreamProgress_decl_def
      RxStreamProgress_read_def TxStreamProgress_read_def word_size)

text \<open>
  C6. The declaration of \<open>EndpointDatagramReceived\<close> lists one member, named len, of
  the unsigned 64-bit type. A record holds nothing else: it is the record built from
  that one read, which is 64 bits wide.
\<close>

theorem EndpointDatagramReceived_one_member:
  "map fst EndpointDatagramReceived_decl = [''len'']
   \<and> length EndpointDatagramReceived_decl = 1
   \<and> map snd EndpointDatagramReceived_decl = [Uint64_t]
   \<and> ctype_bits Uint64_t = 64
   \<and> ctype_signed Uint64_t = False
   \<and> EndpointDatagramReceived_read d = [len d]
   \<and> size (len d) = 64
   \<and> d = \<lparr>len = len d\<rparr>"
  by (simp add: EndpointDatagramReceived_decl_def EndpointDatagramReceived_read_def word_size)

section \<open>The byte layout\<close>

text \<open>
  C3. Under the layout rule, whatever alignment the platform gives \<open>uint64_t\<close> (it
  divides the size, 8), every member takes 8 bytes, member number i (from 1) of each of
  the four structs starts at byte 8 * (i - 1), with no padding between members or
  after the last one, and the struct takes 8 bytes per member: 72 bytes for
  \<open>RecoveryMetrics\<close>, at offsets 0, 8, ..., 64 in the order of the declaration, and 8
  bytes for each of the other three, whose one member is at offset 0.
\<close>

theorem struct_layout_without_padding:
  assumes "al Uint64_t dvd 8"
  shows
  "offsetof_members al RecoveryMetrics_decl
     = map (\<lambda>i. 8 * (i - 1)) [1..<Suc (length RecoveryMetrics_decl)]
   \<and> zip (map fst RecoveryMetrics_decl) (offsetof_members al RecoveryMetrics_decl)
     = [(''path'', 0), (''min_rtt'', 8), (''smoothed_rtt'', 16), (''latest_rtt'', 24),
        (''rtt_variance'', 32), (''max_ack_delay'', 40), (''pto_count'', 48),
        (''congestion_window'', 56), (''bytes_in_flight'', 64)]
   \<and> map (size_of \<circ> snd) RecoveryMetrics_decl = replicate 9 8
   \<and> sizeof_struct al RecoveryMetrics_decl = 8 * length RecoveryMetrics_decl
   \<and> sizeof_struct al RecoveryMetrics_decl = 72
   \<and> zip (map fst RxStreamProgress_decl) (offsetof_members al RxStreamProgress_decl)
     = [(''bytes'', 0)]
   \<and> map (size_of \<circ> snd) RxStreamProgress_decl = [8]
   \<and> sizeof_struct al RxStreamProgress_decl = 8 * length RxStreamProgress_decl
   \<and> sizeof_struct al RxStreamProgress_decl = 8
   \<and> zip (map fst TxStreamProgress_decl) (offsetof_members al TxStreamProgress_decl)
     = [(''bytes'', 0)]
   \<and> map (size_of \<circ> snd) TxStreamProgress_decl = [8]
   \<and> sizeof_struct al TxStreamProgress_decl = 8 * length TxStreamProgress_decl
   \<and> sizeof_struct al TxStreamProgress_decl = 8
   \<and> zip (map fst EndpointDatagramReceived_decl)
        (offsetof_members al EndpointDatagramReceived_decl)
     = [(''len'', 0)]
   \<and> map (size_of \<circ> snd) EndpointDatagramReceived_decl = [8]
   \<and> sizeof_struct al EndpointDatagramReceived_decl
     = 8 * length EndpointDatagramReceived_decl
   \<and> sizeof_struct al EndpointDatagramReceived_decl = 8"
proof -
  have offs: "offsetof_members al d = map (\<lambda>i. 8 * (i - 1)) [1..<Suc (length d)]" for d
    using assms by (rule offsetof_members_uint64)
  have sz: "sizeof_struct al d = 8 * length d" for d
    using assms by (rule sizeof_struct_uint64)
  have nine: "map (\<lambda>i. 8 * (i - 1)) [1..<Suc 9] = [0, 8, 16, 24, 32, 40, 48, 56, 64::nat]"
    by (simp add: upt_rec)
  have rm_len: "length RecoveryMetrics_decl = 9"
    by (simp add: RecoveryMetrics_decl_def)
  have rm_offs: "offsetof_members al RecoveryMetrics_decl = [0, 8, 16, 24, 32, 40, 48, 56, 64]"
    by (simp only: offs rm_len nine)
  have rm_names: "zip (map fst RecoveryMetrics_decl) [0, 8, 16, 24, 32, 40, 48, 56, 64::nat]
     = [(''path'', 0), (''min_rtt'', 8), (''smoothed_rtt'', 16), (''latest_rtt'', 24),
        (''rtt_variance'', 32), (''max_ack_delay'', 40), (''pto_count'', 48),
        (''congestion_window'', 56), (''bytes_in_flight'', 64)]"
    by (simp add: RecoveryMetrics_decl_def)
  have rm1: "offsetof_members al RecoveryMetrics_decl
     = map (\<lambda>i. 8 * (i - 1)) [1..<Suc (length RecoveryMetrics_decl)]"
    by (rule offs)
  have rm2: "zip (map fst RecoveryMetrics_decl) (offsetof_members al RecoveryMetrics_decl)
     = [(''path'', 0), (''min_rtt'', 8), (''smoothed_rtt'', 16), (''latest_rtt'', 24),
        (''rtt_variance'', 32), (''max_ack_delay'', 40), (''pto_count'', 48),
        (''congestion_window'', 56), (''bytes_in_flight'', 64)]"
    by (simp only: rm_offs rm_names)
  have rm3: "map (size_of \<circ> snd) RecoveryMetrics_decl = replicate 9 8"
    by (simp add: RecoveryMetrics_decl_def eval_nat_numeral)
  have rm4: "sizeof_struct al RecoveryMetrics_decl = 8 * length RecoveryMetrics_decl"
    by (rule sz)
  have rm5: "sizeof_struct al RecoveryMetrics_decl = 72"
    by (simp add: sz rm_len)
  have rx1: "zip (map fst RxStreamProgress_decl) (offsetof_members al RxStreamProgress_decl)
     = [(''bytes'', 0)]"
    by (simp add: offs) (simp add: RxStreamProgress_decl_def)
  have rx2: "map (size_of \<circ> snd) RxStreamProgress_decl = [8]"
    by (simp add: RxStreamProgress_decl_def)
  have rx3: "sizeof_struct al RxStreamProgress_decl = 8 * length RxStreamProgress_decl"
    by (rule sz)
  have rx4: "sizeof_struct al RxStreamProgress_decl = 8"
    by (simp add: sz RxStreamProgress_decl_def)
  have tx1: "zip (map fst TxStreamProgress_decl) (offsetof_members al TxStreamProgress_decl)
     = [(''bytes'', 0)]"
    by (simp add: offs) (simp add: TxStreamProgress_decl_def)
  have tx2: "map (size_of \<circ> snd) TxStreamProgress_decl = [8]"
    by (simp add: TxStreamProgress_decl_def)
  have tx3: "sizeof_struct al TxStreamProgress_decl = 8 * length TxStreamProgress_decl"
    by (rule sz)
  have tx4: "sizeof_struct al TxStreamProgress_decl = 8"
    by (simp add: sz TxStreamProgress_decl_def)
  have ep1: "zip (map fst EndpointDatagramReceived_decl)
        (offsetof_members al EndpointDatagramReceived_decl)
     = [(''len'', 0)]"
    by (simp add: offs) (simp add: EndpointDatagramReceived_decl_def)
  have ep2: "map (size_of \<circ> snd) EndpointDatagramReceived_decl = [8]"
    by (simp add: EndpointDatagramReceived_decl_def)
  have ep3: "sizeof_struct al EndpointDatagramReceived_decl
     = 8 * length EndpointDatagramReceived_decl"
    by (rule sz)
  have ep4: "sizeof_struct al EndpointDatagramReceived_decl = 8"
    by (simp add: sz EndpointDatagramReceived_decl_def)
  from rm1 rm2 rm3 rm4 rm5 rx1 rx2 rx3 rx4 tx1 tx2 tx3 tx4 ep1 ep2 ep3 ep4
  show ?thesis by blast
qed

theorem struct_layout_without_padding_witness:
  "(8::nat) dvd 8
   \<and> zip (map fst RecoveryMetrics_decl) (offsetof_members (\<lambda>t. 8) RecoveryMetrics_decl)
     = [(''path'', 0), (''min_rtt'', 8), (''smoothed_rtt'', 16), (''latest_rtt'', 24),
        (''rtt_variance'', 32), (''max_ack_delay'', 40), (''pto_count'', 48),
        (''congestion_window'', 56), (''bytes_in_flight'', 64)]
   \<and> sizeof_struct (\<lambda>t. 8) RecoveryMetrics_decl = 72
   \<and> sizeof_struct (\<lambda>t. 8) RxStreamProgress_decl = 8
   \<and> sizeof_struct (\<lambda>t. 8) TxStreamProgress_decl = 8
   \<and> sizeof_struct (\<lambda>t. 8) EndpointDatagramReceived_decl = 8"
proof -
  have al: "(\<lambda>t. 8::nat) Uint64_t dvd 8"
    by simp
  from al struct_layout_without_padding [of "\<lambda>t. 8", OF al] show ?thesis
    by blast
qed

section \<open>Construction and reading\<close>

text \<open>
  C2. Round trip. A record built from given member values reads back exactly these
  values, member by member and in the order of the declaration, for each of the four
  kinds. In particular the record built from 1, 2000, 2100, 2050, 50, 25000, 0, 65536,
  1200 reads back these nine numbers in this order.
\<close>

theorem construct_then_read:
  "RecoveryMetrics_read
      \<lparr>path = a1, min_rtt = a2, smoothed_rtt = a3, latest_rtt = a4,
       rtt_variance = a5, max_ack_delay = a6, pto_count = a7,
       congestion_window = a8, bytes_in_flight = a9\<rparr>
     = [a1, a2, a3, a4, a5, a6, a7, a8, a9]
   \<and> path
      \<lparr>path = a1, min_rtt = a2, smoothed_rtt = a3, latest_rtt = a4,
       rtt_variance = a5, max_ack_delay = a6, pto_count = a7,
       congestion_window = a8, bytes_in_flight = a9\<rparr> = a1
   \<and> min_rtt
      \<lparr>path = a1, min_rtt = a2, smoothed_rtt = a3, latest_rtt = a4,
       rtt_variance = a5, max_ack_delay = a6, pto_count = a7,
       congestion_window = a8, bytes_in_flight = a9\<rparr> = a2
   \<and> smoothed_rtt
      \<lparr>path = a1, min_rtt = a2, smoothed_rtt = a3, latest_rtt = a4,
       rtt_variance = a5, max_ack_delay = a6, pto_count = a7,
       congestion_window = a8, bytes_in_flight = a9\<rparr> = a3
   \<and> latest_rtt
      \<lparr>path = a1, min_rtt = a2, smoothed_rtt = a3, latest_rtt = a4,
       rtt_variance = a5, max_ack_delay = a6, pto_count = a7,
       congestion_window = a8, bytes_in_flight = a9\<rparr> = a4
   \<and> rtt_variance
      \<lparr>path = a1, min_rtt = a2, smoothed_rtt = a3, latest_rtt = a4,
       rtt_variance = a5, max_ack_delay = a6, pto_count = a7,
       congestion_window = a8, bytes_in_flight = a9\<rparr> = a5
   \<and> max_ack_delay
      \<lparr>path = a1, min_rtt = a2, smoothed_rtt = a3, latest_rtt = a4,
       rtt_variance = a5, max_ack_delay = a6, pto_count = a7,
       congestion_window = a8, bytes_in_flight = a9\<rparr> = a6
   \<and> pto_count
      \<lparr>path = a1, min_rtt = a2, smoothed_rtt = a3, latest_rtt = a4,
       rtt_variance = a5, max_ack_delay = a6, pto_count = a7,
       congestion_window = a8, bytes_in_flight = a9\<rparr> = a7
   \<and> congestion_window
      \<lparr>path = a1, min_rtt = a2, smoothed_rtt = a3, latest_rtt = a4,
       rtt_variance = a5, max_ack_delay = a6, pto_count = a7,
       congestion_window = a8, bytes_in_flight = a9\<rparr> = a8
   \<and> bytes_in_flight
      \<lparr>path = a1, min_rtt = a2, smoothed_rtt = a3, latest_rtt = a4,
       rtt_variance = a5, max_ack_delay = a6, pto_count = a7,
       congestion_window = a8, bytes_in_flight = a9\<rparr> = a9
   \<and> RxStreamProgress_read \<lparr>RxStreamProgress.bytes = rx\<rparr> = [rx]
   \<and> RxStreamProgress.bytes \<lparr>RxStreamProgress.bytes = rx\<rparr> = rx
   \<and> TxStreamProgress_read \<lparr>TxStreamProgress.bytes = tx\<rparr> = [tx]
   \<and> TxStreamProgress.bytes \<lparr>TxStreamProgress.bytes = tx\<rparr> = tx
   \<and> EndpointDatagramReceived_read \<lparr>len = n\<rparr> = [n]
   \<and> len \<lparr>len = n\<rparr> = n
   \<and> map uint (RecoveryMetrics_read
      \<lparr>path = 1, min_rtt = 2000, smoothed_rtt = 2100, latest_rtt = 2050,
       rtt_variance = 50, max_ack_delay = 25000, pto_count = 0,
       congestion_window = 65536, bytes_in_flight = 1200\<rparr>)
     = [1, 2000, 2100, 2050, 50, 25000, 0, 65536, 1200]"
  by (simp add: RecoveryMetrics_read_def RxStreamProgress_read_def TxStreamProgress_read_def
      EndpointDatagramReceived_read_def)

text \<open>
  C4. No truncation. For every integer v with 0 <= v <= 2^64 - 1 and every member of
  every kind, a record built with this member set to v (converted to \<open>uint64_t\<close>, as
  C does) reads back, as an integer, exactly v from this member, whatever the other
  members hold. The witness takes the two extremes, 2^64 - 1 and 0.
\<close>

theorem full_range_without_truncation:
  assumes "0 \<le> v" and "v \<le> 2 ^ 64 - 1"
  shows
  "uint (path
      \<lparr>path = word_of_int v, min_rtt = a2, smoothed_rtt = a3, latest_rtt = a4,
       rtt_variance = a5, max_ack_delay = a6, pto_count = a7,
       congestion_window = a8, bytes_in_flight = a9\<rparr>) = v
   \<and> uint (min_rtt
      \<lparr>path = a1, min_rtt = word_of_int v, smoothed_rtt = a3, latest_rtt = a4,
       rtt_variance = a5, max_ack_delay = a6, pto_count = a7,
       congestion_window = a8, bytes_in_flight = a9\<rparr>) = v
   \<and> uint (smoothed_rtt
      \<lparr>path = a1, min_rtt = a2, smoothed_rtt = word_of_int v, latest_rtt = a4,
       rtt_variance = a5, max_ack_delay = a6, pto_count = a7,
       congestion_window = a8, bytes_in_flight = a9\<rparr>) = v
   \<and> uint (latest_rtt
      \<lparr>path = a1, min_rtt = a2, smoothed_rtt = a3, latest_rtt = word_of_int v,
       rtt_variance = a5, max_ack_delay = a6, pto_count = a7,
       congestion_window = a8, bytes_in_flight = a9\<rparr>) = v
   \<and> uint (rtt_variance
      \<lparr>path = a1, min_rtt = a2, smoothed_rtt = a3, latest_rtt = a4,
       rtt_variance = word_of_int v, max_ack_delay = a6, pto_count = a7,
       congestion_window = a8, bytes_in_flight = a9\<rparr>) = v
   \<and> uint (max_ack_delay
      \<lparr>path = a1, min_rtt = a2, smoothed_rtt = a3, latest_rtt = a4,
       rtt_variance = a5, max_ack_delay = word_of_int v, pto_count = a7,
       congestion_window = a8, bytes_in_flight = a9\<rparr>) = v
   \<and> uint (pto_count
      \<lparr>path = a1, min_rtt = a2, smoothed_rtt = a3, latest_rtt = a4,
       rtt_variance = a5, max_ack_delay = a6, pto_count = word_of_int v,
       congestion_window = a8, bytes_in_flight = a9\<rparr>) = v
   \<and> uint (congestion_window
      \<lparr>path = a1, min_rtt = a2, smoothed_rtt = a3, latest_rtt = a4,
       rtt_variance = a5, max_ack_delay = a6, pto_count = a7,
       congestion_window = word_of_int v, bytes_in_flight = a9\<rparr>) = v
   \<and> uint (bytes_in_flight
      \<lparr>path = a1, min_rtt = a2, smoothed_rtt = a3, latest_rtt = a4,
       rtt_variance = a5, max_ack_delay = a6, pto_count = a7,
       congestion_window = a8, bytes_in_flight = word_of_int v\<rparr>) = v
   \<and> uint (RxStreamProgress.bytes \<lparr>RxStreamProgress.bytes = word_of_int v\<rparr>) = v
   \<and> uint (TxStreamProgress.bytes \<lparr>TxStreamProgress.bytes = word_of_int v\<rparr>) = v
   \<and> uint (len \<lparr>len = word_of_int v\<rparr>) = v"
  using assms by (simp add: uint_word_of_int_u64)

theorem full_range_without_truncation_witness:
  "(0::int) \<le> 18446744073709551615 \<and> (18446744073709551615::int) \<le> 2 ^ 64 - 1
   \<and> uint (path
      \<lparr>path = word_of_int 18446744073709551615, min_rtt = 0, smoothed_rtt = 0,
       latest_rtt = 0, rtt_variance = 0, max_ack_delay = 0, pto_count = 0,
       congestion_window = 0, bytes_in_flight = 0\<rparr>) = 18446744073709551615
   \<and> uint (bytes_in_flight
      \<lparr>path = 0, min_rtt = 0, smoothed_rtt = 0, latest_rtt = 0,
       rtt_variance = 0, max_ack_delay = 0, pto_count = 0,
       congestion_window = 0,
       bytes_in_flight = word_of_int 18446744073709551615\<rparr>) = 18446744073709551615
   \<and> uint (RxStreamProgress.bytes \<lparr>RxStreamProgress.bytes = word_of_int 18446744073709551615\<rparr>)
     = 18446744073709551615
   \<and> uint (TxStreamProgress.bytes \<lparr>TxStreamProgress.bytes = word_of_int 18446744073709551615\<rparr>)
     = 18446744073709551615
   \<and> uint (len \<lparr>len = word_of_int 18446744073709551615\<rparr>) = 18446744073709551615
   \<and> (0::int) \<le> 0 \<and> (0::int) \<le> 2 ^ 64 - 1
   \<and> uint (path
      \<lparr>path = word_of_int 0, min_rtt = 1, smoothed_rtt = 1, latest_rtt = 1,
       rtt_variance = 1, max_ack_delay = 1, pto_count = 1,
       congestion_window = 1, bytes_in_flight = 1\<rparr>) = 0
   \<and> uint (len \<lparr>len = word_of_int 0\<rparr>) = 0"
proof -
  have top: "(0::int) \<le> 18446744073709551615" "(18446744073709551615::int) \<le> 2 ^ 64 - 1"
    by simp_all
  have bot: "(0::int) \<le> 0" "(0::int) \<le> 2 ^ 64 - 1"
    by simp_all
  show ?thesis
    using full_range_without_truncation [OF top, of 0 0 0 0 0 0 0 0 0]
      full_range_without_truncation [OF bot, of 1 1 1 1 1 1 1 1 1]
    by simp
qed

text \<open>
  C7. Construction has no error path. The constructor of each kind is a total function
  of the member values, with no error among its results: whatever the values, there is
  a record of the kind whose members read back as these values.
\<close>

theorem construction_always_succeeds:
  "(\<exists>m. RecoveryMetrics_read m = [a1, a2, a3, a4, a5, a6, a7, a8, a9])
   \<and> (\<exists>m. RxStreamProgress_read m = [rx])
   \<and> (\<exists>m. TxStreamProgress_read m = [tx])
   \<and> (\<exists>m. EndpointDatagramReceived_read m = [n])"
proof -
  have "RecoveryMetrics_read
      \<lparr>path = a1, min_rtt = a2, smoothed_rtt = a3, latest_rtt = a4,
       rtt_variance = a5, max_ack_delay = a6, pto_count = a7,
       congestion_window = a8, bytes_in_flight = a9\<rparr>
     = [a1, a2, a3, a4, a5, a6, a7, a8, a9]"
    by (simp add: RecoveryMetrics_read_def)
  moreover have "RxStreamProgress_read \<lparr>RxStreamProgress.bytes = rx\<rparr> = [rx]"
    by (simp add: RxStreamProgress_read_def)
  moreover have "TxStreamProgress_read \<lparr>TxStreamProgress.bytes = tx\<rparr> = [tx]"
    by (simp add: TxStreamProgress_read_def)
  moreover have "EndpointDatagramReceived_read \<lparr>len = n\<rparr> = [n]"
    by (simp add: EndpointDatagramReceived_read_def)
  ultimately show ?thesis by blast
qed

text \<open>
  C9. Every member of every record is non-negative, read as the integer it stands for:
  the members are unsigned.
\<close>

theorem members_non_negative:
  "0 \<le> uint (path m)
   \<and> 0 \<le> uint (min_rtt m)
   \<and> 0 \<le> uint (smoothed_rtt m)
   \<and> 0 \<le> uint (latest_rtt m)
   \<and> 0 \<le> uint (rtt_variance m)
   \<and> 0 \<le> uint (max_ack_delay m)
   \<and> 0 \<le> uint (pto_count m)
   \<and> 0 \<le> uint (congestion_window m)
   \<and> 0 \<le> uint (bytes_in_flight m)
   \<and> 0 \<le> uint (RxStreamProgress.bytes rx)
   \<and> 0 \<le> uint (TxStreamProgress.bytes tx)
   \<and> 0 \<le> uint (len d)"
  by simp

text \<open>
  C10. Construction and reading are deterministic. Two records of a kind built from
  member values are equal exactly when the values agree member by member, so equal
  arguments give equal records; and two records are equal exactly when all their
  member reads agree, so the reads depend on nothing but the values the record was
  built from.
\<close>

theorem construction_deterministic:
  "((\<lparr>path = a1, min_rtt = a2, smoothed_rtt = a3, latest_rtt = a4,
     rtt_variance = a5, max_ack_delay = a6, pto_count = a7,
     congestion_window = a8, bytes_in_flight = a9\<rparr>
    = \<lparr>path = b1, min_rtt = b2, smoothed_rtt = b3, latest_rtt = b4,
     rtt_variance = b5, max_ack_delay = b6, pto_count = b7,
     congestion_window = b8, bytes_in_flight = b9\<rparr>)
    = ([a1, a2, a3, a4, a5, a6, a7, a8, a9] = [b1, b2, b3, b4, b5, b6, b7, b8, b9]))
   \<and> ((\<lparr>RxStreamProgress.bytes = rx\<rparr> = \<lparr>RxStreamProgress.bytes = rx'\<rparr>) = (rx = rx'))
   \<and> ((\<lparr>TxStreamProgress.bytes = tx\<rparr> = \<lparr>TxStreamProgress.bytes = tx'\<rparr>) = (tx = tx'))
   \<and> ((\<lparr>len = n\<rparr> = \<lparr>len = n'\<rparr>) = (n = n'))
   \<and> ((m = m') = (RecoveryMetrics_read m = RecoveryMetrics_read m'))
   \<and> ((r = r') = (RxStreamProgress_read r = RxStreamProgress_read r'))
   \<and> ((t = t') = (TxStreamProgress_read t = TxStreamProgress_read t'))
   \<and> ((d = d') = (EndpointDatagramReceived_read d = EndpointDatagramReceived_read d'))"
  by (auto simp add: RecoveryMetrics_read_def RxStreamProgress_read_def
      TxStreamProgress_read_def EndpointDatagramReceived_read_def)

section \<open>Reads at any time after construction\<close>

text \<open>
  C8. A record is immutable once constructed. The header provides no operation that
  writes to a record: after construction there are only member reads, and a read
  leaves the record as it is. So for each of the four kinds and every sequence of
  reads after construction, however long and in whatever order, every read returns
  the value supplied at construction for its member, and the record after the
  sequence is the record that was constructed.
\<close>

theorem reads_after_construction:
  "read_ops (map RecoveryMetrics_member_read ms)
      \<lparr>path = a1, min_rtt = a2, smoothed_rtt = a3, latest_rtt = a4,
       rtt_variance = a5, max_ack_delay = a6, pto_count = a7,
       congestion_window = a8, bytes_in_flight = a9\<rparr>
     = (map (\<lambda>x. RecoveryMetrics_member_read x
      \<lparr>path = a1, min_rtt = a2, smoothed_rtt = a3, latest_rtt = a4,
       rtt_variance = a5, max_ack_delay = a6, pto_count = a7,
       congestion_window = a8, bytes_in_flight = a9\<rparr>) ms,
      \<lparr>path = a1, min_rtt = a2, smoothed_rtt = a3, latest_rtt = a4,
       rtt_variance = a5, max_ack_delay = a6, pto_count = a7,
       congestion_window = a8, bytes_in_flight = a9\<rparr>)
   \<and> RecoveryMetrics_member_read Path
      \<lparr>path = a1, min_rtt = a2, smoothed_rtt = a3, latest_rtt = a4,
       rtt_variance = a5, max_ack_delay = a6, pto_count = a7,
       congestion_window = a8, bytes_in_flight = a9\<rparr> = a1
   \<and> RecoveryMetrics_member_read Min_rtt
      \<lparr>path = a1, min_rtt = a2, smoothed_rtt = a3, latest_rtt = a4,
       rtt_variance = a5, max_ack_delay = a6, pto_count = a7,
       congestion_window = a8, bytes_in_flight = a9\<rparr> = a2
   \<and> RecoveryMetrics_member_read Smoothed_rtt
      \<lparr>path = a1, min_rtt = a2, smoothed_rtt = a3, latest_rtt = a4,
       rtt_variance = a5, max_ack_delay = a6, pto_count = a7,
       congestion_window = a8, bytes_in_flight = a9\<rparr> = a3
   \<and> RecoveryMetrics_member_read Latest_rtt
      \<lparr>path = a1, min_rtt = a2, smoothed_rtt = a3, latest_rtt = a4,
       rtt_variance = a5, max_ack_delay = a6, pto_count = a7,
       congestion_window = a8, bytes_in_flight = a9\<rparr> = a4
   \<and> RecoveryMetrics_member_read Rtt_variance
      \<lparr>path = a1, min_rtt = a2, smoothed_rtt = a3, latest_rtt = a4,
       rtt_variance = a5, max_ack_delay = a6, pto_count = a7,
       congestion_window = a8, bytes_in_flight = a9\<rparr> = a5
   \<and> RecoveryMetrics_member_read Max_ack_delay
      \<lparr>path = a1, min_rtt = a2, smoothed_rtt = a3, latest_rtt = a4,
       rtt_variance = a5, max_ack_delay = a6, pto_count = a7,
       congestion_window = a8, bytes_in_flight = a9\<rparr> = a6
   \<and> RecoveryMetrics_member_read Pto_count
      \<lparr>path = a1, min_rtt = a2, smoothed_rtt = a3, latest_rtt = a4,
       rtt_variance = a5, max_ack_delay = a6, pto_count = a7,
       congestion_window = a8, bytes_in_flight = a9\<rparr> = a7
   \<and> RecoveryMetrics_member_read Congestion_window
      \<lparr>path = a1, min_rtt = a2, smoothed_rtt = a3, latest_rtt = a4,
       rtt_variance = a5, max_ack_delay = a6, pto_count = a7,
       congestion_window = a8, bytes_in_flight = a9\<rparr> = a8
   \<and> RecoveryMetrics_member_read Bytes_in_flight
      \<lparr>path = a1, min_rtt = a2, smoothed_rtt = a3, latest_rtt = a4,
       rtt_variance = a5, max_ack_delay = a6, pto_count = a7,
       congestion_window = a8, bytes_in_flight = a9\<rparr> = a9
   \<and> read_ops (replicate k RxStreamProgress.bytes) \<lparr>RxStreamProgress.bytes = rx\<rparr>
     = (replicate k rx, \<lparr>RxStreamProgress.bytes = rx\<rparr>)
   \<and> read_ops (replicate k TxStreamProgress.bytes) \<lparr>TxStreamProgress.bytes = tx\<rparr>
     = (replicate k tx, \<lparr>TxStreamProgress.bytes = tx\<rparr>)
   \<and> read_ops (replicate k len) \<lparr>len = n\<rparr> = (replicate k n, \<lparr>len = n\<rparr>)"
  by (simp add: read_ops_leave_record comp_def map_replicate_const)

end
